theory Spec2Isabelle
  imports Main "HOL-Library.Word" "HOL-Library.Sublist"
begin

section \<open>JavaScript strings\<close>

text \<open>
  The handlers of \<^verbatim>\<open>CompanySection.tsx\<close> work on \<^verbatim>\<open>e.target.value\<close>, a JavaScript
  string: a sequence of 16-bit UTF-16 code units. The regular expressions of the file
  carry no \<^verbatim>\<open>u\<close> flag, so they see one code unit at a time, and \<^verbatim>\<open>slice\<close> counts code
  units.
\<close>

type_synonym code_unit = "16 word"
type_synonym jsstring = "code_unit list"

text \<open>An ASCII literal of the source as a JavaScript string.\<close>

definition js :: "string \<Rightarrow> jsstring" where
  "js s = map (\<lambda>c. of_nat (of_char c)) s"

text \<open>
  JavaScript truthiness of a value that is a string, \<^verbatim>\<open>undefined\<close> or \<^verbatim>\<open>null\<close>
  (\<open>None\<close>): only a non-empty string is truthy.
\<close>

fun truthy :: "jsstring option \<Rightarrow> bool" where
  "truthy None = False"
| "truthy (Some s) = (s \<noteq> [])"

subsection \<open>\<^verbatim>\<open>String.prototype.slice\<close>\<close>

text \<open>
  \<^verbatim>\<open>s.slice(start, end)\<close>: a negative index counts from the end, both indices are
  clamped to the string, and an empty string results when \<open>end\<close> is not after \<open>start\<close>.
\<close>

definition slice_str :: "int \<Rightarrow> int \<Rightarrow> jsstring \<Rightarrow> jsstring" where
  "slice_str start end s =
     (let len = int (length s);
          from = (if start < 0 then max (len + start) 0 else min start len);
          to = (if end < 0 then max (len + end) 0 else min end len)
      in take (nat (max (to - from) 0)) (drop (nat from) s))"

subsection \<open>Character classes and \<^verbatim>\<open>String.prototype.replace\<close> with a global pattern\<close>

text \<open>
  The members of a bracketed class as the file writes them: a range \<^verbatim>\<open>A-Z\<close>, a single
  (possibly escaped) character such as \<^verbatim>\<open>\-\<close> or \<^verbatim>\<open>'\<close>, and the escape \<^verbatim>\<open>\s\<close>.
\<close>

datatype class_item =
    Between code_unit code_unit
  | Exactly code_unit
  | WhiteSpace

text \<open>
  \<^verbatim>\<open>\s\<close> in ECMAScript: the WhiteSpace and LineTerminator code points, that is TAB, LF,
  VT, FF, CR, SPACE, NO-BREAK SPACE, U+1680, U+2000 to U+200A, U+2028, U+2029, U+202F,
  U+205F, U+3000 and U+FEFF.
\<close>

definition is_whitespace :: "code_unit \<Rightarrow> bool" where
  "is_whitespace c =
     ((0x0009 \<le> c \<and> c \<le> 0x000D) \<or> c = 0x0020 \<or> c = 0x00A0 \<or> c = 0x1680 \<or>
      (0x2000 \<le> c \<and> c \<le> 0x200A) \<or> c = 0x2028 \<or> c = 0x2029 \<or> c = 0x202F \<or>
      c = 0x205F \<or> c = 0x3000 \<or> c = 0xFEFF)"

definition is_digit :: "code_unit \<Rightarrow> bool" where
  "is_digit c = (0x30 \<le> c \<and> c \<le> 0x39)"

fun item_matches :: "class_item \<Rightarrow> code_unit \<Rightarrow> bool" where
  "item_matches (Between lo hi) c = (lo \<le> c \<and> c \<le> hi)"
| "item_matches (Exactly x) c = (c = x)"
| "item_matches WhiteSpace c = is_whitespace c"

text \<open>
  The patterns of the file: a negated class \<^verbatim>\<open>[^...]\<close> and \<^verbatim>\<open>\D\<close>. Each matches exactly
  one code unit.
\<close>

datatype pattern =
    NegClass "class_item list"
  | NonDigit

fun pattern_matches :: "pattern \<Rightarrow> code_unit \<Rightarrow> bool" where
  "pattern_matches (NegClass items) c = (\<not> list_ex (\<lambda>i. item_matches i c) items)"
| "pattern_matches NonDigit c = (\<not> is_digit c)"

text \<open>
  \<^verbatim>\<open>s.replace(/p/g, r)\<close> for a pattern that matches single code units and a replacement
  without \<^verbatim>\<open>$\<close>: from left to right, every matching code unit becomes \<open>r\<close>.
\<close>

definition replace_g :: "pattern \<Rightarrow> jsstring \<Rightarrow> jsstring \<Rightarrow> jsstring" where
  "replace_g p r s = concat (map (\<lambda>c. if pattern_matches p c then r else [c]) s)"

subsection \<open>\<^verbatim>\<open>String.prototype.toUpperCase\<close>\<close>

text \<open>
  \<^verbatim>\<open>toUpperCase\<close> reads the string as code points (a high surrogate followed by a low
  surrogate is one code point, any other code unit stands for itself), maps every code
  point to its uppercase mapping of the Unicode Character Database, which may be several
  code points long, and encodes the result in UTF-16 again. The mapping has no context
  rule for uppercase.
\<close>

definition is_high_surrogate :: "code_unit \<Rightarrow> bool" where
  "is_high_surrogate c = (0xD800 \<le> c \<and> c \<le> 0xDBFF)"

definition is_low_surrogate :: "code_unit \<Rightarrow> bool" where
  "is_low_surrogate c = (0xDC00 \<le> c \<and> c \<le> 0xDFFF)"

fun code_points :: "jsstring \<Rightarrow> nat list" where
  "code_points [] = []"
| "code_points [c] = [unat c]"
| "code_points (h # l # rest) =
     (if is_high_surrogate h \<and> is_low_surrogate l
      then (0x10000 + (unat h - 0xD800) * 0x400 + (unat l - 0xDC00)) # code_points rest
      else unat h # code_points (l # rest))"

definition utf16 :: "nat \<Rightarrow> jsstring" where
  "utf16 cp =
     (if cp < 0x10000 then [of_nat cp]
      else [of_nat (0xD800 + (cp - 0x10000) div 0x400),
            of_nat (0xDC00 + (cp - 0x10000) mod 0x400)])"

text \<open>
  The uppercase mapping of the code points from 128 up is the JavaScript runtime's
  table, not part of this repository: it is the parameter \<open>ucd\<close> of everything that calls
  \<^verbatim>\<open>toUpperCase\<close>. Below 128 the only mappings are \<^verbatim>\<open>a\<close>..\<^verbatim>\<open>z\<close> to \<^verbatim>\<open>A\<close>..\<^verbatim>\<open>Z\<close>.
\<close>

type_synonym case_table = "nat \<Rightarrow> nat list"

definition uppercase_mapping :: "case_table \<Rightarrow> nat \<Rightarrow> nat list" where
  "uppercase_mapping ucd cp =
     (if cp < 128 then (if 0x61 \<le> cp \<and> cp \<le> 0x7A then [cp - 0x20] else [cp])
      else ucd cp)"

definition toUpperCase :: "case_table \<Rightarrow> jsstring \<Rightarrow> jsstring" where
  "toUpperCase ucd s =
     concat (map utf16 (concat (map (uppercase_mapping ucd) (code_points s))))"

section \<open>The component\<close>

text \<open>
  The \<^verbatim>\<open>id\<close>s of the text inputs and the textarea of \<^verbatim>\<open>CompanySection\<close>, in the order
  of the file.
\<close>

datatype fieldId =
    legalCompanyName | displayName | companyName
  | subVendor | vendorCode | primaryContactName
  | primaryContactPhone | primaryContactEmail | contactPersonName
  | vendorPhoneNumber | vendorEmailAddress | gstin
  | pincode | state | city
  | address

datatype transportMode = road | air | rail | ship

text \<open>
  The props: what the hooks \<^verbatim>\<open>useVendorBasics\<close> and \<^verbatim>\<open>usePincodeLookup\<close> hand to the
  component for one render. A value that may be \<^verbatim>\<open>undefined\<close> or \<^verbatim>\<open>null\<close> is an option.
\<close>

record props =
  basics :: "fieldId \<Rightarrow> jsstring option"
  errors :: "fieldId \<Rightarrow> jsstring option"
  geo :: "fieldId \<Rightarrow> jsstring option"
  isLoading :: bool
  geoError :: "jsstring option"
  isManual :: bool
  transportMode :: transportMode

text \<open>The calls a handler makes on the collaborators, in order.\<close>

datatype call =
    setField fieldId jsstring
  | validateField fieldId
  | setPincode jsstring
  | setState jsstring
  | setCity jsstring
  | onTransportModeChange transportMode

subsection \<open>Change handlers\<close>

text \<open>
  The value each \<^verbatim>\<open>onChange\<close> computes from \<^verbatim>\<open>e.target.value\<close> before it calls its setter
  (the spec's \<^verbatim>\<open>mask\<close>), field by field as the file writes it. The email, state and city
  handlers pass \<^verbatim>\<open>e.target.value\<close> on as it is.
\<close>

fun mask_field :: "case_table \<Rightarrow> fieldId \<Rightarrow> jsstring \<Rightarrow> jsstring" where
  "mask_field ucd legalCompanyName v = slice_str 0 60 v"
| "mask_field ucd displayName v = slice_str 0 30 v"
| "mask_field ucd companyName v = slice_str 0 30 v"
| "mask_field ucd subVendor v = slice_str 0 20 v"
| "mask_field ucd vendorCode v =
     slice_str 0 20 (replace_g (NegClass [Between 0x41 0x5A, Between 0x30 0x39]) [] (toUpperCase ucd v))"
| "mask_field ucd primaryContactName v =
     slice_str 0 25
       (replace_g (NegClass [Between 0x61 0x7A, Between 0x41 0x5A, WhiteSpace, Exactly 0x2D, Exactly 0x27])
          [] v)"
| "mask_field ucd primaryContactPhone v = slice_str 0 10 (replace_g NonDigit [] v)"
| "mask_field ucd primaryContactEmail v = v"
| "mask_field ucd contactPersonName v =
     slice_str 0 30
       (replace_g (NegClass [Between 0x61 0x7A, Between 0x41 0x5A, WhiteSpace, Exactly 0x2D, Exactly 0x27])
          [] v)"
| "mask_field ucd vendorPhoneNumber v = slice_str 0 10 (replace_g NonDigit [] v)"
| "mask_field ucd vendorEmailAddress v = v"
| "mask_field ucd gstin v =
     slice_str 0 15 (replace_g (NegClass [Between 0x41 0x5A, Between 0x30 0x39]) [] (toUpperCase ucd v))"
| "mask_field ucd pincode v = slice_str 0 6 (replace_g NonDigit [] v)"
| "mask_field ucd state v = v"
| "mask_field ucd city v = v"
| "mask_field ucd address v = slice_str 0 150 v"

text \<open>
  The setter each \<^verbatim>\<open>onChange\<close> calls: \<^verbatim>\<open>setPincode\<close>, \<^verbatim>\<open>setState\<close> and \<^verbatim>\<open>setCity\<close> of the
  pincode lookup for the three geographic inputs, \<^verbatim>\<open>setField\<close> with the field's own id
  for the others.
\<close>

fun onChange :: "case_table \<Rightarrow> fieldId \<Rightarrow> jsstring \<Rightarrow> call list" where
  "onChange ucd pincode v = [setPincode (mask_field ucd pincode v)]"
| "onChange ucd state v = [setState v]"
| "onChange ucd city v = [setCity v]"
| "onChange ucd f v = [setField f (mask_field ucd f v)]"

subsection \<open>Blur handlers\<close>

text \<open>
  \<^verbatim>\<open>onBlur\<close>: \<^verbatim>\<open>validateField\<close> of the field's id; for \<^verbatim>\<open>gstin\<close> only under
  \<^verbatim>\<open>if (basics.gstin)\<close>; the pincode, state and city inputs have no \<^verbatim>\<open>onBlur\<close>.
\<close>

fun onBlur :: "props \<Rightarrow> fieldId \<Rightarrow> call list" where
  "onBlur p gstin = (if truthy (basics p gstin) then [validateField gstin] else [])"
| "onBlur p pincode = []"
| "onBlur p state = []"
| "onBlur p city = []"
| "onBlur p f = [validateField f]"

subsection \<open>The \<^verbatim>\<open>readOnly\<close> attribute\<close>

text \<open>
  Only the state and city inputs carry \<^verbatim>\<open>readOnly={!isManual && !geoError}\<close>; no other
  input is ever read-only.
\<close>

fun readOnly :: "props \<Rightarrow> fieldId \<Rightarrow> bool" where
  "readOnly p state = (\<not> isManual p \<and> \<not> truthy (geoError p))"
| "readOnly p city = (\<not> isManual p \<and> \<not> truthy (geoError p))"
| "readOnly p f = False"

subsection \<open>Events\<close>

text \<open>
  The events the component listens to: a change of a text input with its new
  \<^verbatim>\<open>e.target.value\<close>, a blur of a text input, and a change of the transport-mode select
  with the value of the chosen option. The select's handler ignores its event.
\<close>

datatype event =
    Change fieldId jsstring
  | Blur fieldId
  | ChangeTransportMode jsstring

fun handle :: "case_table \<Rightarrow> props \<Rightarrow> event \<Rightarrow> call list" where
  "handle ucd p (Change f v) = onChange ucd f v"
| "handle ucd p (Blur f) = onBlur p f"
| "handle ucd p (ChangeTransportMode v) = [onTransportModeChange road]"

text \<open>
  What typing the text \<open>v\<close> into a field does: the browser lets the user edit an input
  only when it is not read-only, and then fires the change event.
\<close>

definition userEdit :: "case_table \<Rightarrow> props \<Rightarrow> fieldId \<Rightarrow> jsstring \<Rightarrow> call list" where
  "userEdit ucd p f v = (if readOnly p f then [] else handle ucd p (Change f v))"

section \<open>The masking table of the specification\<close>

text \<open>
  The fourteen fields of the table, the seven among them with a character-class rule, and
  the table's columns: the maximal length, the allowed class and the case transform.
\<close>

definition table_fields :: "fieldId list" where
  "table_fields =
     [legalCompanyName, displayName, companyName, subVendor, vendorCode, primaryContactName,
      contactPersonName, primaryContactPhone, vendorPhoneNumber, primaryContactEmail,
      vendorEmailAddress, gstin, address, pincode]"

definition class_fields :: "fieldId list" where
  "class_fields =
     [vendorCode, primaryContactName, contactPersonName, primaryContactPhone,
      vendorPhoneNumber, gstin, pincode]"

fun maxLength :: "fieldId \<Rightarrow> nat option" where
  "maxLength legalCompanyName = Some 60"
| "maxLength displayName = Some 30"
| "maxLength companyName = Some 30"
| "maxLength subVendor = Some 20"
| "maxLength vendorCode = Some 20"
| "maxLength primaryContactName = Some 25"
| "maxLength contactPersonName = Some 30"
| "maxLength primaryContactPhone = Some 10"
| "maxLength vendorPhoneNumber = Some 10"
| "maxLength gstin = Some 15"
| "maxLength address = Some 150"
| "maxLength pincode = Some 6"
| "maxLength f = None"

definition is_upper :: "code_unit \<Rightarrow> bool" where
  "is_upper c = (0x41 \<le> c \<and> c \<le> 0x5A)"

definition is_lower :: "code_unit \<Rightarrow> bool" where
  "is_lower c = (0x61 \<le> c \<and> c \<le> 0x7A)"

text \<open>
  The table's classes: \<^verbatim>\<open>A-Z, 0-9\<close>; letters, space, hyphen, apostrophe; digits; and
  any character for the fields without a class rule.
\<close>

fun table_allowed :: "fieldId \<Rightarrow> code_unit \<Rightarrow> bool" where
  "table_allowed vendorCode c = (is_upper c \<or> is_digit c)"
| "table_allowed gstin c = (is_upper c \<or> is_digit c)"
| "table_allowed primaryContactName c =
     (is_lower c \<or> is_upper c \<or> c = 0x20 \<or> c = 0x2D \<or> c = 0x27)"
| "table_allowed contactPersonName c =
     (is_lower c \<or> is_upper c \<or> c = 0x20 \<or> c = 0x2D \<or> c = 0x27)"
| "table_allowed primaryContactPhone c = is_digit c"
| "table_allowed vendorPhoneNumber c = is_digit c"
| "table_allowed pincode c = is_digit c"
| "table_allowed f c = True"

text \<open>
  The class each handler's pattern leaves in place: the table's class, but for the two
  name fields every \<^verbatim>\<open>\s\<close> character where the table has the space.
\<close>

fun kept :: "fieldId \<Rightarrow> code_unit \<Rightarrow> bool" where
  "kept primaryContactName c =
     (is_lower c \<or> is_upper c \<or> is_whitespace c \<or> c = 0x2D \<or> c = 0x27)"
| "kept contactPersonName c =
     (is_lower c \<or> is_upper c \<or> is_whitespace c \<or> c = 0x2D \<or> c = 0x27)"
| "kept f c = table_allowed f c"

text \<open>The table's case column: \<open>upper\<close> for \<^verbatim>\<open>vendorCode\<close> and \<^verbatim>\<open>gstin\<close>, \<open>none\<close> elsewhere.\<close>

fun caseTransform :: "case_table \<Rightarrow> fieldId \<Rightarrow> jsstring \<Rightarrow> jsstring" where
  "caseTransform ucd vendorCode v = toUpperCase ucd v"
| "caseTransform ucd gstin v = toUpperCase ucd v"
| "caseTransform ucd f v = v"

text \<open>
  The ASCII letters and digits, and the uppercase of a code unit below 128: what
  \<^verbatim>\<open>toUpperCase\<close> does to an ASCII string, written without the code-point machinery.
\<close>

definition ascii_alnum :: "code_unit \<Rightarrow> bool" where
  "ascii_alnum c = (is_lower c \<or> is_upper c \<or> is_digit c)"

definition ascii_upper :: "code_unit \<Rightarrow> code_unit" where
  "ascii_upper c = (if is_lower c then c - 0x20 else c)"

text \<open>The inputs whose \<^verbatim>\<open>onBlur\<close> calls \<^verbatim>\<open>validateField\<close>, in the order of the file.\<close>

definition validated_fields :: "fieldId list" where
  "validated_fields =
     [legalCompanyName, displayName, companyName, subVendor, vendorCode, primaryContactName,
      primaryContactPhone, primaryContactEmail, contactPersonName, vendorPhoneNumber,
      vendorEmailAddress, gstin, address]"

text \<open>Props for the examples: an empty form, no lookup running, no error, not manual.\<close>

definition blank_props :: props where
  "blank_props =
     \<lparr>basics = (\<lambda>f. None), errors = (\<lambda>f. None), geo = (\<lambda>f. None), isLoading = False,
      geoError = None, isManual = False, transportMode = road\<rparr>"

text \<open>A case table for the examples: every code point from 128 up is its own uppercase.\<close>

definition plain_table :: case_table where
  "plain_table cp = [cp]"

section \<open>Facts about the string operations\<close>

lemma slice_str_0_take: "slice_str 0 (int n) s = take n s"
  by (simp add: slice_str_def Let_def min_def)

lemma replace_g_empty_filter: "replace_g p [] s = filter (\<lambda>c. \<not> pattern_matches p c) s"
  by (induction s) (simp_all add: replace_g_def)

lemma take_filter_idem: "take n (filter P (take n (filter P xs))) = take n (filter P xs)"
proof -
  have "filter P (take n (filter P xs)) = take n (filter P xs)"
    by (rule filter_True) (auto dest: in_set_takeD)
  then show ?thesis by simp
qed

subsection \<open>\<^verbatim>\<open>toUpperCase\<close> on ASCII\<close>

lemma code_points_plain:
  "\<forall>c\<in>set s. \<not> is_high_surrogate c \<Longrightarrow> code_points s = map unat s"
  by (induction s rule: code_points.induct) simp_all

lemma upper_ascii_unit:
  assumes "c < 0x80"
  shows "concat (map utf16 (uppercase_mapping ucd (unat c))) = [ascii_upper c]"
proof -
  from assms have lt: "unat c < 128" by (simp add: word_less_nat_alt)
  have low: "is_lower c \<longleftrightarrow> 0x61 \<le> unat c \<and> unat c \<le> 0x7A"
    by (simp add: is_lower_def word_le_nat_alt)
  show ?thesis
  proof (cases "is_lower c")
    case True
    with low have "32 \<le> unat c" by simp
    then have "(of_nat (unat c - 32) :: code_unit) = c - 32"
      by (simp add: of_nat_diff)
    moreover from True low have "unat c - 32 < 65536" by linarith
    ultimately show ?thesis
      using True low lt by (simp add: uppercase_mapping_def utf16_def ascii_upper_def)
  next
    case False
    with low lt show ?thesis
      by (auto simp add: uppercase_mapping_def utf16_def ascii_upper_def)
  qed
qed

lemma ascii_not_high: "c < 0x80 \<Longrightarrow> \<not> is_high_surrogate c"
  by (simp add: is_high_surrogate_def word_less_nat_alt word_le_nat_alt)

lemma toUpperCase_ascii:
  assumes "\<forall>c\<in>set s. c < 0x80"
  shows "toUpperCase ucd s = map ascii_upper s"
proof -
  from assms have "code_points s = map unat s"
    by (intro code_points_plain) (simp add: ascii_not_high)
  moreover from assms
  have "concat (map utf16 (concat (map (uppercase_mapping ucd) (map unat s)))) = map ascii_upper s"
    by (induction s) (simp_all add: upper_ascii_unit)
  ultimately show ?thesis by (simp add: toUpperCase_def)
qed

lemma alnum_lt_128: "ascii_alnum c \<Longrightarrow> c < 0x80"
  by (auto simp add: ascii_alnum_def is_upper_def is_lower_def is_digit_def
      word_less_nat_alt word_le_nat_alt)

lemma upper_digit_fixed: "is_upper c \<or> is_digit c \<Longrightarrow> ascii_upper c = c"
  by (auto simp add: ascii_upper_def is_upper_def is_digit_def is_lower_def word_le_nat_alt)

lemma ascii_upper_alnum:
  assumes "ascii_alnum c"
  shows "is_upper (ascii_upper c) \<or> is_digit (ascii_upper c)"
proof (cases "is_lower c")
  case True
  then have b: "0x61 \<le> unat c \<and> unat c \<le> 0x7A"
    by (simp add: is_lower_def word_le_nat_alt)
  then have "unat (c - 0x20) = unat c - 32"
    by (simp add: unat_sub word_le_nat_alt)
  with b have "0x41 \<le> unat (c - 0x20) \<and> unat (c - 0x20) \<le> 0x5A"
    by linarith
  then have "is_upper (c - 0x20)"
    by (simp add: is_upper_def word_le_nat_alt)
  with True show ?thesis by (simp add: ascii_upper_def)
next
  case False
  with assms show ?thesis by (simp add: ascii_upper_def ascii_alnum_def)
qed

lemma ascii_upper_alnum_iff:
  "(is_upper (ascii_upper c) \<or> is_digit (ascii_upper c)) = ascii_alnum c"
proof (cases "is_lower c")
  case True
  then have "ascii_alnum c" by (simp add: ascii_alnum_def)
  then show ?thesis using ascii_upper_alnum by simp
next
  case False
  then show ?thesis by (simp add: ascii_upper_def ascii_alnum_def)
qed

lemma filter_map_ascii_upper:
  "filter (\<lambda>c. is_upper c \<or> is_digit c) (map ascii_upper v) = map ascii_upper (filter ascii_alnum v)"
  by (induction v) (simp_all add: ascii_upper_alnum_iff)

lemma toUpperCase_fixed:
  assumes "\<forall>c\<in>set s. is_upper c \<or> is_digit c"
  shows "toUpperCase ucd s = s"
proof -
  from assms have "\<forall>c\<in>set s. ascii_alnum c"
    by (simp add: ascii_alnum_def)
  then have "\<forall>c\<in>set s. c < 0x80"
    using alnum_lt_128 by blast
  then have "toUpperCase ucd s = map ascii_upper s"
    by (rule toUpperCase_ascii)
  also from assms have "\<dots> = s"
    by (induction s) (simp_all add: upper_digit_fixed)
  finally show ?thesis .
qed

subsection \<open>\<^verbatim>\<open>toUpperCase\<close> on any string\<close>

lemma toUpperCase_Nil: "toUpperCase ucd [] = []"
  by (simp add: toUpperCase_def)

lemma toUpperCase_single:
  "toUpperCase ucd [c] = concat (map utf16 (uppercase_mapping ucd (unat c)))"
  by (simp add: toUpperCase_def)

lemma toUpperCase_pair:
  "is_high_surrogate h \<and> is_low_surrogate l \<Longrightarrow>
   toUpperCase ucd (h # l # rest) =
     concat (map utf16 (uppercase_mapping ucd
       (0x10000 + (unat h - 0xD800) * 0x400 + (unat l - 0xDC00)))) @ toUpperCase ucd rest"
  by (simp add: toUpperCase_def)

lemma toUpperCase_unit:
  "\<not> (is_high_surrogate h \<and> is_low_surrogate l) \<Longrightarrow>
   toUpperCase ucd (h # l # rest) =
     concat (map utf16 (uppercase_mapping ucd (unat h))) @ toUpperCase ucd (l # rest)"
  by (auto simp add: toUpperCase_def)

lemma surrogate_not_alnum:
  "is_high_surrogate c \<or> is_low_surrogate c \<Longrightarrow> \<not> ascii_alnum c"
  by (auto simp add: ascii_alnum_def is_upper_def is_lower_def is_digit_def
      is_high_surrogate_def is_low_surrogate_def word_le_nat_alt)

lemma unit_survives:
  "subseq (map ascii_upper (filter ascii_alnum [c]))
     (filter (\<lambda>c. is_upper c \<or> is_digit c) (concat (map utf16 (uppercase_mapping ucd (unat c)))))"
proof (cases "ascii_alnum c")
  case True
  then have "concat (map utf16 (uppercase_mapping ucd (unat c))) = [ascii_upper c]"
    by (intro upper_ascii_unit alnum_lt_128)
  with True ascii_upper_alnum [OF True] show ?thesis by auto
next
  case False
  then show ?thesis by simp
qed

text \<open>
  Every ASCII letter and digit of a string is still there after \<^verbatim>\<open>toUpperCase\<close> and the
  \<^verbatim>\<open>[^A-Z0-9]\<close> filter, uppercased and in its order. (Other code units may add letters of
  their own: the uppercase of U+00DF is \<^verbatim>\<open>SS\<close>.)
\<close>

lemma alnum_survive:
  "subseq (map ascii_upper (filter ascii_alnum v))
     (filter (\<lambda>c. is_upper c \<or> is_digit c) (toUpperCase ucd v))"
proof (induction v rule: code_points.induct)
  case 1
  show ?case by (simp add: toUpperCase_Nil)
next
  case (2 c)
  show ?case unfolding toUpperCase_single by (rule unit_survives)
next
  case (3 h l rest)
  let ?P = "\<lambda>c. is_upper c \<or> is_digit c"
  show ?case
  proof (cases "is_high_surrogate h \<and> is_low_surrogate l")
    case True
    then have "filter ascii_alnum (h # l # rest) = filter ascii_alnum rest"
      by (simp add: surrogate_not_alnum)
    moreover from True
    have "subseq (map ascii_upper (filter ascii_alnum rest)) (filter ?P (toUpperCase ucd rest))"
      by (rule "3.IH"(1))
    ultimately show ?thesis
      by (simp add: toUpperCase_pair [OF True] list_emb_append2)
  next
    case False
    have "subseq
        (map ascii_upper (filter ascii_alnum [h]) @ map ascii_upper (filter ascii_alnum (l # rest)))
        (filter ?P (concat (map utf16 (uppercase_mapping ucd (unat h))))
           @ filter ?P (toUpperCase ucd (l # rest)))"
      using unit_survives "3.IH"(2) [OF False] by (rule list_emb_append_mono)
    moreover have "map ascii_upper (filter ascii_alnum (h # l # rest)) =
        map ascii_upper (filter ascii_alnum [h]) @ map ascii_upper (filter ascii_alnum (l # rest))"
      by simp
    moreover have "filter ?P (toUpperCase ucd (h # l # rest)) =
        filter ?P (concat (map utf16 (uppercase_mapping ucd (unat h))))
          @ filter ?P (toUpperCase ucd (l # rest))"
      by (simp add: toUpperCase_unit [OF False])
    ultimately show ?thesis by (simp only:)
  qed
qed

section \<open>Facts about the masks\<close>

lemma mask_field_take_filter:
  assumes "maxLength f = Some n" and "f \<in> set class_fields"
  shows "mask_field ucd f v = take n (filter (kept f) (caseTransform ucd f v))"
  using assms
  by (cases f)
     (simp_all add: class_fields_def replace_g_empty_filter is_upper_def is_lower_def is_digit_def
        slice_str_0_take [of "numeral k" for k, simplified] cong: filter_cong)

lemma mask_field_take:
  assumes "maxLength f = Some n" and "f \<notin> set class_fields"
  shows "mask_field ucd f v = take n v"
  using assms
  by (cases f)
     (simp_all add: class_fields_def slice_str_0_take [of "numeral k" for k, simplified])

lemma caseTransform_fixed:
  assumes "\<forall>c\<in>set y. kept f c"
  shows "caseTransform ucd f y = y"
proof (cases "f = vendorCode \<or> f = gstin")
  case True
  with assms have "\<forall>c\<in>set y. is_upper c \<or> is_digit c"
    by (elim disjE) simp_all
  then have "toUpperCase ucd y = y" by (rule toUpperCase_fixed)
  with True show ?thesis by (elim disjE) simp_all
next
  case False
  then show ?thesis by (cases f) simp_all
qed

text \<open>
  What holds of every field with a class rule: the value handed to the setter consists of
  characters its pattern keeps and is no longer than the field's maximal length. For
  the five fields other than the two names, the kept class is the table's class.
\<close>

lemma mask_field_kept:
  assumes "maxLength f = Some n" and "f \<in> set class_fields"
  shows "list_all (kept f) (mask_field ucd f v) \<and> length (mask_field ucd f v) \<le> n"
proof -
  have "mask_field ucd f v = take n (filter (kept f) (caseTransform ucd f v))"
    using assms by (rule mask_field_take_filter)
  moreover have "list_all (kept f) (take n (filter (kept f) (caseTransform ucd f v)))"
    by (auto simp add: list_all_iff dest: in_set_takeD)
  ultimately show ?thesis by simp
qed

lemma kept_is_table_allowed:
  "f \<noteq> primaryContactName \<Longrightarrow> f \<noteq> contactPersonName \<Longrightarrow> kept f c = table_allowed f c"
  by (cases f) simp_all

lemma table_allowed_kept: "table_allowed f c \<Longrightarrow> kept f c"
  by (cases f) (auto simp add: is_whitespace_def)

lemma kept_table_plain_space:
  assumes "f = primaryContactName \<or> f = contactPersonName \<longrightarrow> (is_whitespace c \<longrightarrow> c = 0x20)"
  shows "kept f c = table_allowed f c"
proof (cases "f = primaryContactName \<or> f = contactPersonName")
  case True
  with assms have "is_whitespace c \<longleftrightarrow> c = 0x20"
    by (auto simp add: is_whitespace_def)
  with True show ?thesis by (elim disjE) simp_all
next
  case False
  then show ?thesis by (simp add: kept_is_table_allowed)
qed

lemma mask_field_take_filter_table:
  assumes "maxLength f = Some n" and "f \<in> set class_fields"
    and "f = primaryContactName \<or> f = contactPersonName \<longrightarrow>
      (\<forall>c\<in>set v. is_whitespace c \<longrightarrow> c = 0x20)"
  shows "mask_field ucd f v = take n (filter (table_allowed f) (caseTransform ucd f v))"
proof -
  have "kept f c = table_allowed f c" if "c \<in> set (caseTransform ucd f v)" for c
  proof (cases "f = primaryContactName \<or> f = contactPersonName")
    case True
    then have "caseTransform ucd f v = v" by (elim disjE) simp_all
    with that True assms(3) show ?thesis
      by (intro kept_table_plain_space) simp
  next
    case False
    then show ?thesis by (simp add: kept_is_table_allowed)
  qed
  then have "filter (kept f) (caseTransform ucd f v) = filter (table_allowed f) (caseTransform ucd f v)"
    by (intro filter_cong) simp_all
  with mask_field_take_filter [OF assms(1,2), of ucd v] show ?thesis by simp
qed

section \<open>Facts about the handlers\<close>

lemma change_setter:
  "f \<in> set table_fields \<Longrightarrow>
   handle ucd p (Change f v) =
     [if f = pincode then setPincode (mask_field ucd f v) else setField f (mask_field ucd f v)]"
  by (cases f) (simp_all add: table_fields_def)

lemma onBlur_validates_own_field: "validateField g \<in> set (onBlur p f) \<Longrightarrow> f = g"
  by (cases f) (auto split: if_splits)

lemma onChange_never_validates: "validateField g \<notin> set (onChange ucd f v)"
  by (cases f) simp_all

lemma validateField_only_on_blur:
  "validateField g \<in> set (handle ucd p ev) \<Longrightarrow> ev = Blur g"
  using onBlur_validates_own_field onChange_never_validates
  by (cases ev) auto

lemma onBlur_state_city: "validateField g \<in> set (onBlur p f) \<Longrightarrow> g \<noteq> state \<and> g \<noteq> city"
  by (cases f) (auto split: if_splits)

section \<open>Transport mode\<close>

text \<open>
  C2. Whatever option value the change event of the transport-mode select carries (road,
  air, rail, ship or anything else), the one call made is \<^verbatim>\<open>onTransportModeChange('road')\<close>.
\<close>

theorem transport_mode_pinned:
  "handle ucd p (ChangeTransportMode v) = [onTransportModeChange road]"
  by simp

theorem transport_mode_pinned_witness:
  "handle plain_table blank_props (ChangeTransportMode (js ''air'')) = [onTransportModeChange road]"
  by (rule transport_mode_pinned)

section \<open>Masking\<close>

text \<open>
  C1. The claim: for the seven fields with a class rule, the sanitized value has only
  characters of the table's class and at most \<open>maxLength\<close> characters. The length bound
  holds for all seven and the class for five (\<open>mask_field_kept\<close>,
  \<open>kept_is_table_allowed\<close>). For \<^verbatim>\<open>primaryContactName\<close> the class fails: the pattern
  \<^verbatim>\<open>[^a-zA-Z\s\-']\<close> keeps every \<^verbatim>\<open>\s\<close> character, so a no-break space (U+00A0), which
  the table's class "letters, space, hyphen, apostrophe" and the handler's own comment
  exclude, stays in the value.
\<close>

theorem primaryContactName_keeps_no_break_space:
  "mask_field ucd primaryContactName [0x41, 0xA0, 0x42] = [0x41, 0xA0, 0x42]
   \<and> \<not> table_allowed primaryContactName 0xA0
   \<and> \<not> list_all (table_allowed primaryContactName) (mask_field ucd primaryContactName [0x41, 0xA0, 0x42])"
  by (simp add: slice_str_def replace_g_def is_whitespace_def is_lower_def is_upper_def)

text \<open>
  C4, as the code has it. For each of the seven fields with a class rule the filter runs
  before the truncation and after the field's case transform: the value is the first
  \<open>maxLength\<close> characters of what the table's class leaves of the input, uppercased first
  for \<^verbatim>\<open>vendorCode\<close> and \<^verbatim>\<open>gstin\<close>. For the two name fields this is stated for inputs whose
  only \<^verbatim>\<open>\s\<close> character is the space. On \<^verbatim>\<open>12a3-456b7890123\<close> the phone mask gives
  \<^verbatim>\<open>1234567890\<close>; truncating to 10 first and filtering afterwards would give \<^verbatim>\<open>1234567\<close>.
\<close>

theorem filter_before_truncate:
  "(f \<in> set class_fields \<longrightarrow> maxLength f = Some n \<longrightarrow>
      (f = primaryContactName \<or> f = contactPersonName \<longrightarrow>
         (\<forall>c\<in>set v. is_whitespace c \<longrightarrow> c = 0x20)) \<longrightarrow>
      mask_field ucd f v = take n (filter (table_allowed f) (caseTransform ucd f v)))
   \<and> mask_field ucd primaryContactPhone (js ''12a3-456b7890123'') = js ''1234567890''
   \<and> filter (table_allowed primaryContactPhone) (take 10 (js ''12a3-456b7890123'')) = js ''1234567''"
proof (intro conjI impI)
  assume "f \<in> set class_fields" and "maxLength f = Some n"
    and "f = primaryContactName \<or> f = contactPersonName \<longrightarrow>
      (\<forall>c\<in>set v. is_whitespace c \<longrightarrow> c = 0x20)"
  then show "mask_field ucd f v = take n (filter (table_allowed f) (caseTransform ucd f v))"
    by (simp add: mask_field_take_filter_table)
next
  show "mask_field ucd primaryContactPhone (js ''12a3-456b7890123'') = js ''1234567890''"
    by (simp add: js_def slice_str_def replace_g_def is_digit_def)
next
  show "filter (table_allowed primaryContactPhone) (take 10 (js ''12a3-456b7890123'')) = js ''1234567''"
    by (simp add: js_def is_digit_def)
qed

theorem filter_before_truncate_witness:
  "mask_field plain_table vendorPhoneNumber (js ''12a3-456b7890123'')
       = take 10 (filter (table_allowed vendorPhoneNumber) (js ''12a3-456b7890123''))
   \<and> mask_field plain_table vendorCode (js ''ab-12cd'')
       = take 20 (filter (table_allowed vendorCode) (toUpperCase plain_table (js ''ab-12cd'')))
   \<and> list_all (\<lambda>c. is_whitespace c = (c = 0x20)) (js ''Jo Ann-Lee 2'')
   \<and> mask_field plain_table primaryContactName (js ''Jo Ann-Lee 2'')
       = take 25 (filter (table_allowed primaryContactName) (js ''Jo Ann-Lee 2''))
   \<and> mask_field plain_table primaryContactName (js ''Jo Ann-Lee 2'') = js ''Jo Ann-Lee ''"
proof -
  have ws: "list_all (\<lambda>c. is_whitespace c = (c = 0x20)) (js ''Jo Ann-Lee 2'')"
    by (simp add: js_def is_whitespace_def)
  then have plain: "\<forall>c\<in>set (js ''Jo Ann-Lee 2''). is_whitespace c \<longrightarrow> c = 0x20"
    by (simp add: list_all_iff)
  have "mask_field plain_table vendorPhoneNumber (js ''12a3-456b7890123'')
      = take 10 (filter (table_allowed vendorPhoneNumber) (js ''12a3-456b7890123''))"
    using filter_before_truncate [of vendorPhoneNumber 10 "js ''12a3-456b7890123''" plain_table]
    by (simp add: class_fields_def)
  moreover have "mask_field plain_table vendorCode (js ''ab-12cd'')
      = take 20 (filter (table_allowed vendorCode) (toUpperCase plain_table (js ''ab-12cd'')))"
    using filter_before_truncate [of vendorCode 20 "js ''ab-12cd''" plain_table]
    by (simp add: class_fields_def)
  moreover have "mask_field plain_table primaryContactName (js ''Jo Ann-Lee 2'')
      = take 25 (filter (table_allowed primaryContactName) (js ''Jo Ann-Lee 2''))"
    using plain filter_before_truncate [of primaryContactName 25 "js ''Jo Ann-Lee 2''" plain_table]
    by (simp add: class_fields_def)
  moreover have "mask_field plain_table primaryContactName (js ''Jo Ann-Lee 2'') = js ''Jo Ann-Lee ''"
    by (simp add: js_def slice_str_def replace_g_def is_whitespace_def)
  ultimately show ?thesis using ws by (intro conjI)
qed

text \<open>
  The claim as the specification states it (the value is the truncated filter of the raw
  input) fails where the table has a case transform: on \<^verbatim>\<open>ab\<close> the \<^verbatim>\<open>vendorCode\<close> mask
  gives \<^verbatim>\<open>AB\<close>, while the class \<^verbatim>\<open>A-Z, 0-9\<close> leaves nothing of the raw input.
\<close>

theorem vendorCode_mask_is_not_filter_of_raw:
  "mask_field plain_table vendorCode (js ''ab'') = js ''AB''
   \<and> take 20 (filter (table_allowed vendorCode) (js ''ab'')) = []
   \<and> mask_field plain_table vendorCode (js ''ab'')
        \<noteq> take 20 (filter (table_allowed vendorCode) (js ''ab''))"
  by (simp add: js_def slice_str_def replace_g_def toUpperCase_def uppercase_mapping_def
      utf16_def is_high_surrogate_def is_low_surrogate_def is_upper_def is_digit_def)

text \<open>
  C5. For \<^verbatim>\<open>vendorCode\<close> and \<^verbatim>\<open>gstin\<close> the input is uppercased first, then filtered to
  \<^verbatim>\<open>A-Z0-9\<close>, then truncated to 20 and 15. So every ASCII letter and digit of the input,
  lowercase letters included, reaches the truncation uppercased and in order; on an
  ASCII input the value is exactly the uppercased letters and digits, truncated. The two
  examples of the specification evaluate as it says.
\<close>

theorem uppercase_before_filter:
  "mask_field ucd vendorCode v = take 20 (filter (\<lambda>c. is_upper c \<or> is_digit c) (toUpperCase ucd v))
   \<and> mask_field ucd gstin v = take 15 (filter (\<lambda>c. is_upper c \<or> is_digit c) (toUpperCase ucd v))
   \<and> subseq (map ascii_upper (filter ascii_alnum v))
        (filter (\<lambda>c. is_upper c \<or> is_digit c) (toUpperCase ucd v))
   \<and> ((\<forall>c\<in>set v. c < 0x80) \<longrightarrow>
        mask_field ucd vendorCode v = take 20 (map ascii_upper (filter ascii_alnum v))
        \<and> mask_field ucd gstin v = take 15 (map ascii_upper (filter ascii_alnum v)))
   \<and> mask_field ucd vendorCode (js ''ab-12cd'') = js ''AB12CD''
   \<and> mask_field ucd gstin (js ''22aaaaa0000a1z5extra'') = js ''22AAAAA0000A1Z5''"
proof -
  let ?P = "\<lambda>c. is_upper c \<or> is_digit c"
  have code: "mask_field ucd vendorCode v = take 20 (filter ?P (toUpperCase ucd v))"
    using mask_field_take_filter [of vendorCode 20 ucd v]
    by (simp add: class_fields_def cong: filter_cong)
  have gst: "mask_field ucd gstin v = take 15 (filter ?P (toUpperCase ucd v))"
    using mask_field_take_filter [of gstin 15 ucd v]
    by (simp add: class_fields_def cong: filter_cong)
  have ascii: "(\<forall>c\<in>set v. c < 0x80) \<longrightarrow>
      mask_field ucd vendorCode v = take 20 (map ascii_upper (filter ascii_alnum v))
      \<and> mask_field ucd gstin v = take 15 (map ascii_upper (filter ascii_alnum v))"
    unfolding code gst by (simp add: toUpperCase_ascii filter_map_ascii_upper)
  have ex1: "mask_field ucd vendorCode (js ''ab-12cd'') = js ''AB12CD''"
    by (simp add: js_def slice_str_def replace_g_def toUpperCase_def uppercase_mapping_def
        utf16_def is_high_surrogate_def is_low_surrogate_def)
  have ex2: "mask_field ucd gstin (js ''22aaaaa0000a1z5extra'') = js ''22AAAAA0000A1Z5''"
    by (simp add: js_def slice_str_def replace_g_def toUpperCase_def uppercase_mapping_def
        utf16_def is_high_surrogate_def is_low_surrogate_def)
  from code gst alnum_survive [of v ucd] ascii ex1 ex2 show ?thesis
    by (intro conjI)
qed

theorem uppercase_before_filter_witness:
  "list_all (\<lambda>c. c < 0x80) (js ''ab-12cd'')
   \<and> mask_field plain_table vendorCode (js ''ab-12cd'')
        = take 20 (map ascii_upper (filter ascii_alnum (js ''ab-12cd'')))
   \<and> take 20 (map ascii_upper (filter ascii_alnum (js ''ab-12cd''))) = js ''AB12CD''"
proof -
  have a: "\<forall>c\<in>set (js ''ab-12cd''). c < 0x80"
    by (simp add: js_def)
  have "take 20 (map ascii_upper (filter ascii_alnum (js ''ab-12cd''))) = js ''AB12CD''"
    by (simp add: js_def ascii_upper_def ascii_alnum_def is_lower_def is_upper_def is_digit_def)
  moreover from a uppercase_before_filter [of plain_table "js ''ab-12cd''"]
  have "mask_field plain_table vendorCode (js ''ab-12cd'')
      = take 20 (map ascii_upper (filter ascii_alnum (js ''ab-12cd'')))"
    by blast
  moreover from a have "list_all (\<lambda>c. c < 0x80) (js ''ab-12cd'')"
    by (simp only: list_all_iff)
  ultimately show ?thesis by (intro conjI)
qed

text \<open>
  C6. The claim: the values of \<^verbatim>\<open>primaryContactName\<close> and \<^verbatim>\<open>contactPersonName\<close> hold
  only letters, the space, the hyphen and the apostrophe, and no other whitespace. The
  handlers' comment says the same, but their pattern \<^verbatim>\<open>[^a-zA-Z\s\-']\<close> keeps all of
  \<^verbatim>\<open>\s\<close>: a no-break space in \<^verbatim>\<open>contactPersonName\<close> and a tab in
  \<^verbatim>\<open>primaryContactName\<close> pass the mask unchanged.
\<close>

theorem name_masks_keep_other_whitespace:
  "mask_field ucd contactPersonName (js ''Anne'' @ [0xA0] @ js ''Marie'')
     = js ''Anne'' @ [0xA0] @ js ''Marie''
   \<and> mask_field ucd primaryContactName (js ''Jo'' @ [0x09] @ js ''Ann'') = js ''Jo'' @ [0x09] @ js ''Ann''
   \<and> \<not> table_allowed contactPersonName 0xA0 \<and> \<not> table_allowed primaryContactName 0x09"
  by (simp add: js_def slice_str_def replace_g_def is_whitespace_def is_lower_def is_upper_def)

text \<open>
  C7. Masking is idempotent: for every field of the table (and for the state and city
  inputs as well), the mask of a masked value is that value.
\<close>

theorem mask_idempotent:
  "mask_field ucd f (mask_field ucd f x) = mask_field ucd f x"
proof (cases "f \<in> set class_fields")
  case True
  then obtain n where n: "maxLength f = Some n"
    by (auto simp add: class_fields_def)
  define y where "y = take n (filter (kept f) (caseTransform ucd f x))"
  have "\<forall>c\<in>set y. kept f c"
    unfolding y_def by (auto dest: in_set_takeD)
  then have "caseTransform ucd f y = y"
    by (rule caseTransform_fixed)
  moreover have "take n (filter (kept f) y) = y"
    unfolding y_def by (rule take_filter_idem)
  moreover have "mask_field ucd f x = y"
    unfolding y_def using n True by (rule mask_field_take_filter)
  moreover have "mask_field ucd f y = take n (filter (kept f) (caseTransform ucd f y))"
    using n True by (rule mask_field_take_filter)
  ultimately show ?thesis by simp
next
  case False
  show ?thesis
  proof (cases "maxLength f")
    case None
    with False show ?thesis by (cases f) (simp_all add: class_fields_def)
  next
    case (Some n)
    with False show ?thesis by (simp add: mask_field_take)
  qed
qed

theorem mask_idempotent_witness:
  "mask_field plain_table gstin (mask_field plain_table gstin (js ''22aaaaa0000a1z5extra''))
     = mask_field plain_table gstin (js ''22aaaaa0000a1z5extra'')"
  by (rule mask_idempotent)

section \<open>State and city\<close>

text \<open>
  C3, as the code has it. The state and city inputs are read-only exactly when
  \<^verbatim>\<open>isManual\<close> is false and no lookup error is set; in that case a user's edit reaches no
  setter. They are writable, and an edit calls \<^verbatim>\<open>setState\<close> or \<^verbatim>\<open>setCity\<close>, during a lookup
  error and also whenever \<^verbatim>\<open>isManual\<close> is true, with or without an error.
\<close>

theorem state_city_readOnly_iff:
  "(readOnly p state \<longleftrightarrow> \<not> isManual p \<and> \<not> truthy (geoError p))
   \<and> (readOnly p city \<longleftrightarrow> \<not> isManual p \<and> \<not> truthy (geoError p))
   \<and> (\<not> isManual p \<and> \<not> truthy (geoError p) \<longrightarrow>
        userEdit ucd p state v = [] \<and> userEdit ucd p city v = [])
   \<and> (isManual p \<or> truthy (geoError p) \<longrightarrow>
        userEdit ucd p state v = [setState v] \<and> userEdit ucd p city v = [setCity v])"
  by (auto simp add: userEdit_def)

theorem state_city_readOnly_iff_witness:
  "\<not> isManual blank_props \<and> \<not> truthy (geoError blank_props)
   \<and> readOnly blank_props state \<and> readOnly blank_props city
   \<and> userEdit plain_table blank_props state (js ''Goa'') = []
   \<and> truthy (geoError (blank_props\<lparr>geoError := Some (js ''Invalid pincode'')\<rparr>))
   \<and> userEdit plain_table (blank_props\<lparr>geoError := Some (js ''Invalid pincode'')\<rparr>) city (js ''Panaji'')
        = [setCity (js ''Panaji'')]"
  using state_city_readOnly_iff [of blank_props plain_table "js ''Goa''"]
    state_city_readOnly_iff [of "blank_props\<lparr>geoError := Some (js ''Invalid pincode'')\<rparr>"
      plain_table "js ''Panaji''"]
  by (simp add: blank_props_def js_def)

text \<open>
  The claim as the specification states it (writable only during a lookup error) fails
  on props with \<^verbatim>\<open>isManual\<close> true and no error: both inputs are writable and an edit of
  the state reaches \<^verbatim>\<open>setState\<close>.
\<close>

theorem state_city_writable_without_error:
  "\<not> truthy (geoError (blank_props\<lparr>isManual := True\<rparr>))
   \<and> \<not> readOnly (blank_props\<lparr>isManual := True\<rparr>) state
   \<and> \<not> readOnly (blank_props\<lparr>isManual := True\<rparr>) city
   \<and> userEdit plain_table (blank_props\<lparr>isManual := True\<rparr>) state (js ''Goa'') = [setState (js ''Goa'')]"
  by (simp add: blank_props_def userEdit_def)

text \<open>
  C10. A change of the state or city input hands \<^verbatim>\<open>e.target.value\<close> to \<^verbatim>\<open>setState\<close> or
  \<^verbatim>\<open>setCity\<close> as it is, so an edit of a writable input does; neither input has a blur
  handler, and no event at all calls \<^verbatim>\<open>validateField\<close> for \<^verbatim>\<open>state\<close> or \<^verbatim>\<open>city\<close>.
\<close>

theorem state_city_pass_raw:
  "handle ucd p (Change state v) = [setState v]
   \<and> handle ucd p (Change city v) = [setCity v]
   \<and> (\<not> readOnly p state \<longrightarrow> userEdit ucd p state v = [setState v])
   \<and> (\<not> readOnly p city \<longrightarrow> userEdit ucd p city v = [setCity v])
   \<and> handle ucd p (Blur state) = [] \<and> handle ucd p (Blur city) = []
   \<and> validateField state \<notin> set (handle ucd p ev)
   \<and> validateField city \<notin> set (handle ucd p ev)"
proof -
  have "validateField state \<notin> set (handle ucd p ev)"
    using onBlur_state_city onChange_never_validates by (cases ev) auto
  moreover have "validateField city \<notin> set (handle ucd p ev)"
    using onBlur_state_city onChange_never_validates by (cases ev) auto
  ultimately show ?thesis by (simp add: userEdit_def)
qed

theorem state_city_pass_raw_witness:
  "\<not> readOnly (blank_props\<lparr>geoError := Some (js ''Invalid pincode'')\<rparr>) state
   \<and> userEdit plain_table (blank_props\<lparr>geoError := Some (js ''Invalid pincode'')\<rparr>) state
        (js '' goa 403-001 !'') = [setState (js '' goa 403-001 !'')]
   \<and> handle plain_table blank_props (Blur city) = []"
  using state_city_pass_raw [of plain_table "blank_props\<lparr>geoError := Some (js ''Invalid pincode'')\<rparr>"
      "js '' goa 403-001 !''" "Blur city"]
    state_city_pass_raw [of plain_table blank_props "[]" "Blur city"]
  by (simp add: blank_props_def js_def)

section \<open>Change and blur\<close>

text \<open>
  C8, as the code has it. A change of a field of the table makes exactly one call, the
  field's setter with the masked value: \<^verbatim>\<open>setField(fieldId, value)\<close> for the thirteen
  form fields and \<^verbatim>\<open>setPincode(value)\<close> for the pincode. No event but the blur of a field
  calls \<^verbatim>\<open>validateField\<close> of that field.
\<close>

theorem change_calls_setter_only:
  "(f \<in> set table_fields \<longrightarrow>
      handle ucd p (Change f v) =
        [if f = pincode then setPincode (mask_field ucd f v) else setField f (mask_field ucd f v)])
   \<and> (validateField g \<in> set (handle ucd p ev) \<longrightarrow> ev = Blur g)"
proof -
  have "validateField g \<in> set (handle ucd p ev) \<longrightarrow> ev = Blur g"
    using validateField_only_on_blur by blast
  moreover have "f \<in> set table_fields \<longrightarrow>
      handle ucd p (Change f v) =
        [if f = pincode then setPincode (mask_field ucd f v) else setField f (mask_field ucd f v)]"
    using change_setter by blast
  ultimately show ?thesis by (intro conjI)
qed

theorem change_calls_setter_only_witness:
  "vendorCode \<in> set table_fields
   \<and> handle plain_table blank_props (Change vendorCode (js ''ab-12cd'')) = [setField vendorCode (js ''AB12CD'')]
   \<and> validateField vendorCode \<in> set (handle plain_table blank_props (Blur vendorCode))"
proof -
  have t: "vendorCode \<in> set table_fields"
    by (simp add: table_fields_def)
  have m: "mask_field plain_table vendorCode (js ''ab-12cd'') = js ''AB12CD''"
    by (simp add: js_def slice_str_def replace_g_def toUpperCase_def uppercase_mapping_def
        utf16_def is_high_surrogate_def is_low_surrogate_def)
  have b: "validateField vendorCode \<in> set (handle plain_table blank_props (Blur vendorCode))"
    by simp
  from t m b
    change_calls_setter_only [of vendorCode plain_table blank_props "js ''ab-12cd''" vendorCode
      "Blur vendorCode"]
  show ?thesis by simp
qed

text \<open>
  The claim as the specification states it (every masked field calls \<^verbatim>\<open>setField\<close>) fails
  for the pincode, a field of the masking table: its change calls \<^verbatim>\<open>setPincode\<close>, and
  \<^verbatim>\<open>setField\<close> is not called.
\<close>

theorem pincode_change_calls_setPincode:
  "handle plain_table blank_props (Change pincode (js ''4a03-001'')) = [setPincode (js ''403001'')]
   \<and> handle plain_table blank_props (Change pincode (js ''4a03-001''))
        \<noteq> [setField pincode (js ''403001'')]"
  by (simp add: js_def slice_str_def replace_g_def is_digit_def)

text \<open>
  C9. The blur of the GST input calls \<^verbatim>\<open>validateField('gstin')\<close> exactly when
  \<^verbatim>\<open>basics.gstin\<close> is a non-empty string; when it is empty or undefined the blur makes no
  call. The blur of every other validated input calls \<^verbatim>\<open>validateField\<close> of its field
  whatever the field holds.
\<close>

theorem gstin_blur_validates_iff_nonempty:
  "(validateField gstin \<in> set (handle ucd p (Blur gstin))
      \<longleftrightarrow> (\<exists>s. basics p gstin = Some s \<and> s \<noteq> []))
   \<and> ((\<exists>s. basics p gstin = Some s \<and> s \<noteq> []) \<longrightarrow> handle ucd p (Blur gstin) = [validateField gstin])
   \<and> (basics p gstin = None \<or> basics p gstin = Some [] \<longrightarrow> handle ucd p (Blur gstin) = [])
   \<and> (f \<in> set validated_fields \<longrightarrow> f \<noteq> gstin \<longrightarrow> handle ucd p (Blur f) = [validateField f])"
proof -
  have t: "truthy (basics p gstin) \<longleftrightarrow> (\<exists>s. basics p gstin = Some s \<and> s \<noteq> [])"
    by (cases "basics p gstin") simp_all
  have others: "f \<in> set validated_fields \<longrightarrow> f \<noteq> gstin \<longrightarrow> handle ucd p (Blur f) = [validateField f]"
    by (cases f) (simp_all add: validated_fields_def)
  have "handle ucd p (Blur gstin) = (if truthy (basics p gstin) then [validateField gstin] else [])"
    by simp
  with t others show ?thesis
    by (cases "basics p gstin") auto
qed

theorem gstin_blur_validates_iff_nonempty_witness:
  "handle plain_table (blank_props\<lparr>basics := (\<lambda>f. if f = gstin then Some (js ''22AAAAA0000A1Z5'') else None)\<rparr>)
       (Blur gstin) = [validateField gstin]
   \<and> handle plain_table (blank_props\<lparr>basics := (\<lambda>f. if f = gstin then Some [] else None)\<rparr>) (Blur gstin) = []
   \<and> handle plain_table blank_props (Blur gstin) = []
   \<and> handle plain_table blank_props (Blur vendorCode) = [validateField vendorCode]"
  using gstin_blur_validates_iff_nonempty [of plain_table
      "blank_props\<lparr>basics := (\<lambda>f. if f = gstin then Some (js ''22AAAAA0000A1Z5'') else None)\<rparr>" vendorCode]
    gstin_blur_validates_iff_nonempty [of plain_table
      "blank_props\<lparr>basics := (\<lambda>f. if f = gstin then Some [] else None)\<rparr>" vendorCode]
    gstin_blur_validates_iff_nonempty [of plain_table blank_props vendorCode]
  by (simp add: blank_props_def js_def validated_fields_def)

end
